theory Spec2Isabelle
  imports Main
begin

section \<open>Values of the host language\<close>

text \<open>
  A thrown value, as far as the controller inspects it: \<open>err.code\<close> (a string for backend
  errors, a number for some native bridges, undefined for a \<open>TypeError\<close>), \<open>err.message\<close>
  and \<open>err.email\<close>.
\<close>

datatype js_code = CodeUndefined | CodeStr string | CodeNum int

datatype js_error = JsError (err_code: js_code) (err_message: "string option") (err_email: "string option")

text \<open>Reading a property of \<open>null\<close> throws a \<open>TypeError\<close>; it carries no \<open>code\<close>.\<close>

definition TypeError :: "string \<Rightarrow> js_error" where
  "TypeError what = JsError CodeUndefined (Some what) None"

text \<open>Truthiness of a value of type \<open>string | null\<close>: \<open>null\<close> and \<open>''\<close> are falsy.\<close>

definition truthy :: "string option \<Rightarrow> bool" where
  "truthy v = (case v of None \<Rightarrow> False | Some s \<Rightarrow> s \<noteq> [])"

text \<open>\<open>s.includes(p)\<close> on strings.\<close>

fun str_includes :: "string \<Rightarrow> string \<Rightarrow> bool" where
  "str_includes [] p = (p = [])"
| "str_includes (x # xs) p = (take (length p) (x # xs) = p \<or> str_includes xs p)"

text \<open>\<open>err.code == '-3'\<close>, the loose comparison: the number \<open>-3\<close> equals the string that denotes it.\<close>

definition loose_eq_minus3 :: "js_code \<Rightarrow> bool" where
  "loose_eq_minus3 c = (case c of CodeUndefined \<Rightarrow> False | CodeStr s \<Rightarrow> s = ''-3'' | CodeNum n \<Rightarrow> n = - 3)"

section \<open>Data model\<close>

text \<open>
  \<open>AuthUser\<close> has the six fields that \<open>createAuthUser\<close> copies from the backend's user
  object; the backend's user is read through the same six fields.
\<close>

record AuthUser =
  uid :: string
  displayName :: "string option"
  email :: "string option"
  emailVerified :: bool
  phoneNumber :: "string option"
  photoURL :: "string option"

type_synonym FirebaseUser = AuthUser

text \<open>
  \<open>AuthProviders\<close> is a string enum (its values are written to the string store and a stored
  string is cast back to it), so a provider is a string and \<open>currentProvider\<close> is
  \<open>string | null\<close>.
\<close>

record AuthUserWithProviders = AuthUser +
  providers :: "string list"
  currentProvider :: "string option"



datatype link_error = InvalidLink | NoEmail | LinkFailure js_error

datatype EmailLinkResult =
  EmailLinkResult (el_result: bool) (el_error: "link_error option") (el_email: "string option")

definition AuthProviderIdKey :: string where
  "AuthProviderIdKey = ''auth:providerid''"

definition UserSignInEmailStorageKey :: string where
  "UserSignInEmailStorageKey = ''auth:signin:email''"

definition MagicLinkReasonKey :: string where
  "MagicLinkReasonKey = ''auth:signin:reason''"

definition PasswordResetRequestedKey :: string where
  "PasswordResetRequestedKey = ''auth:passwordreset''"

section \<open>The collaborators\<close>

text \<open>
  Every awaited call that leaves the controller: the identity backend, the durable store,
  the two awaited events and the platform's Google sign-out.
\<close>

datatype call =
    FetchSignInMethodsForEmail string
  | SendSignInLinkToEmail string string
  | SignInWithEmailLink string string
  | SignInWithPopup
  | BackendSignOut
  | UpdatePassword string
  | ReauthenticateWithCredential "string option" string
  | LinkWithCredential "string option" string
  | StorageGetValue string
  | StorageSetValue string string
  | StorageRemove string
  | OnPreProcessUser "AuthUserWithProviders option"
  | OnSignOut
  | GoogleSignOut

datatype log_level = Log | Warn | Error | ConsoleError

text \<open>
  What lies outside the source file is a parameter of every operation:
  \<^item> the values of the string enums \<open>AuthProviders\<close> and \<open>MagicLinkRequestReasons\<close> and the
    three sign-in method ids of the backend SDK;
  \<^item> \<open>Firebase.Instance.auth.currentUser\<close> and \<open>locationUrl\<close>, as read during the operation;
  \<^item> \<open>prepareEmail\<close>, the normalisation of the utility library, from \<open>string | null\<close> to
    a string (\<open>''\<close> standing for any falsy result);
  \<^item> the answers of the collaborators: \<open>rejects\<close> says, from the calls made so far and the
    call being made, whether that call rejects and with what; the three fields after it
    are the values that resolve;
  \<^item> what the subscribers of the pre-process event do to the snapshot they are handed.
\<close>

record env =
  AuthProviders_None :: string
  AuthProviders_EmailAndPassword :: string
  AuthProviders_EmailLink :: string
  AuthProviders_Google :: string
  AuthProviders_DevLogin :: string
  MagicLinkRequestReasons_PasswordReset :: string
  EMAIL_PASSWORD_SIGN_IN_METHOD :: string
  EMAIL_LINK_SIGN_IN_METHOD :: string
  GOOGLE_PROVIDER_ID :: string
  currentUser :: "FirebaseUser option"
  locationUrl :: string
  prepareEmail :: "string option \<Rightarrow> string"
  rejects :: "call list \<Rightarrow> call \<Rightarrow> js_error option"
  signInMethods :: "string \<Rightarrow> string list"
  isSignInWithEmailLink :: "string \<Rightarrow> bool"
  popupResult :: "FirebaseUser option"
  onPreProcessUser :: "AuthUserWithProviders \<Rightarrow> AuthUserWithProviders"

section \<open>The controller's state\<close>

text \<open>
  The private fields of \<open>AuthControllerBase\<close>, the contents of the durable store, and what
  the collaborators can see from outside: the log, the calls received, the rejections of
  promises that nobody awaits, the reasons passed to \<open>magicLinkSucceeded\<close>, and the value
  of the \<open>initializing\<close> signal at each call.
\<close>

record controller =
  authUser :: "AuthUserWithProviders option"
  initializing_value :: int
  nextProvider :: "string option"
  setPasswordMode :: bool
  firstInit :: bool
  Storage :: "string \<rightharpoonup> string"
  logged :: "(log_level \<times> string) list"
  calls :: "call list"
  unhandled :: "js_error list"
  magicLinkSucceeded :: "string option list"
  initializing_seen :: "bool list"

definition initializing :: "controller \<Rightarrow> bool" where
  "initializing c = (firstInit c \<or> initializing_value c \<noteq> 0)"

text \<open>The fields as the constructor leaves them; the store is whatever was persisted.\<close>

definition constructed :: "(string \<rightharpoonup> string) \<Rightarrow> controller" where
  "constructed st =
     \<lparr>authUser = None, initializing_value = 0, nextProvider = None, setPasswordMode = False,
      firstInit = True, Storage = st, logged = [], calls = [], unhandled = [],
      magicLinkSucceeded = [], initializing_seen = []\<rparr>"

section \<open>Asynchronous operations\<close>

text \<open>
  An \<open>async\<close> function is a state transformer that resolves (\<open>Inr\<close>) or rejects (\<open>Inl\<close>).
  Operations run to completion one after the other; the interleaving of two operations at
  their suspension points is not part of the model.
\<close>

type_synonym 'a io = "controller \<Rightarrow> (js_error + 'a) \<times> controller"

definition io_return :: "'a \<Rightarrow> 'a io" where
  "io_return x = (\<lambda>c. (Inr x, c))"

definition io_throw :: "js_error \<Rightarrow> 'a io" where
  "io_throw e = (\<lambda>c. (Inl e, c))"

definition io_bind :: "'a io \<Rightarrow> ('a \<Rightarrow> 'b io) \<Rightarrow> 'b io" where
  "io_bind m f = (\<lambda>c. case m c of (Inl e, c') \<Rightarrow> (Inl e, c') | (Inr x, c') \<Rightarrow> f x c')"

definition io_get :: "(controller \<Rightarrow> 'a) \<Rightarrow> 'a io" where
  "io_get g = (\<lambda>c. (Inr (g c), c))"

definition io_modify :: "(controller \<Rightarrow> controller) \<Rightarrow> unit io" where
  "io_modify g = (\<lambda>c. (Inr (), g c))"

text \<open>\<open>try { m } catch (err) { h err }\<close>\<close>

definition try_catch :: "'a io \<Rightarrow> (js_error \<Rightarrow> 'a io) \<Rightarrow> 'a io" where
  "try_catch m h = (\<lambda>c. case m c of (Inl e, c') \<Rightarrow> h e c' | (Inr x, c') \<Rightarrow> (Inr x, c'))"

text \<open>\<open>try { m } finally { f }\<close>: \<open>f\<close> runs on both exits and keeps the outcome of \<open>m\<close>.\<close>

definition try_finally :: "'a io \<Rightarrow> unit io \<Rightarrow> 'a io" where
  "try_finally m f =
     (\<lambda>c. case m c of (r, c') \<Rightarrow> (case f c' of (Inl e, c'') \<Rightarrow> (Inl e, c'') | (Inr u, c'') \<Rightarrow> (r, c'')))"

text \<open>
  A call of an \<open>async\<close> function whose promise is neither awaited nor returned: the caller
  goes on and resolves whatever the promise does; a rejection reaches no handler.
\<close>

definition not_awaited :: "'a io \<Rightarrow> unit io" where
  "not_awaited m =
     (\<lambda>c. case m c of
        (Inl e, c') \<Rightarrow> (Inr (), c'\<lparr>unhandled := unhandled c' @ [e]\<rparr>)
      | (Inr x, c') \<Rightarrow> (Inr (), c'))"

text \<open>An awaited call to a collaborator: it is recorded, then resolves or rejects.\<close>

definition await :: "env \<Rightarrow> call \<Rightarrow> unit io" where
  "await E k =
     (\<lambda>c. let c' = c\<lparr>calls := calls c @ [k],
                      initializing_seen := initializing_seen c @ [initializing c]\<rparr>
          in case rejects E (calls c) k of None \<Rightarrow> (Inr (), c') | Some e \<Rightarrow> (Inl e, c'))"

definition logger :: "log_level \<Rightarrow> string \<Rightarrow> unit io" where
  "logger lvl msg = io_modify (\<lambda>c. c\<lparr>logged := logged c @ [(lvl, msg)]\<rparr>)"

text \<open>
  Modelled from the spec: the durable store behind the abstract \<open>Storage\<close> getter
  (\<open>getValue(key) -> string|null\<close>, \<open>setValue(key, value)\<close>, \<open>remove(key)\<close>, all
  asynchronous, each may fail; removing a key that does not exist is a no-op).
\<close>

definition Storage_getValue :: "env \<Rightarrow> string \<Rightarrow> string option io" where
  "Storage_getValue E k = io_bind (await E (StorageGetValue k)) (\<lambda>_. io_get (\<lambda>c. Storage c k))"

definition Storage_setValue :: "env \<Rightarrow> string \<Rightarrow> string \<Rightarrow> unit io" where
  "Storage_setValue E k v =
     io_bind (await E (StorageSetValue k v)) (\<lambda>_. io_modify (\<lambda>c. c\<lparr>Storage := (Storage c)(k \<mapsto> v)\<rparr>))"

definition Storage_remove :: "env \<Rightarrow> string \<Rightarrow> unit io" where
  "Storage_remove E k =
     io_bind (await E (StorageRemove k)) (\<lambda>_. io_modify (\<lambda>c. c\<lparr>Storage := (Storage c)(k := None)\<rparr>))"

section \<open>The operations of \<open>AuthControllerBase\<close>\<close>

text \<open>
  \<open>needsCreatePassword\<close>: \<open>null\<close> when there is no snapshot, when its provider is falsy, or
  when it is Google or DevLogin; otherwise whether the password method is missing.
  (\<open>providers\<close> is an array, and an array is never falsy.)
\<close>

definition needsCreatePassword :: "env \<Rightarrow> controller \<Rightarrow> bool option" where
  "needsCreatePassword E c =
     (case authUser c of
        None \<Rightarrow> None
      | Some a \<Rightarrow>
          if \<not> truthy (currentProvider a)
             \<or> currentProvider a = Some (AuthProviders_Google E)
             \<or> currentProvider a = Some (AuthProviders_DevLogin E)
          then None
          else Some (AuthProviders_EmailAndPassword E \<notin> set (providers a)))"

definition createAuthUser :: "env \<Rightarrow> AuthUser option" where
  "createAuthUser E =
     (case currentUser E of
        None \<Rightarrow> None
      | Some u \<Rightarrow>
          Some \<lparr>uid = uid u, displayName = displayName u, email = email u,
                emailVerified = emailVerified u, phoneNumber = phoneNumber u,
                photoURL = photoURL u\<rparr>)"

definition setNextProvider :: "string \<Rightarrow> unit io" where
  "setNextProvider p =
     io_bind (logger Log ''next provider =>'') (\<lambda>_.
     io_modify (\<lambda>c. c\<lparr>nextProvider := Some p\<rparr>))"

text \<open>The \<open>switch\<close> of \<open>getEmailAuthMethod\<close>; \<open>filter(m => m)\<close> then drops the falsy results.\<close>

definition method_to_provider :: "env \<Rightarrow> string \<Rightarrow> string option" where
  "method_to_provider E m =
     (if m = EMAIL_PASSWORD_SIGN_IN_METHOD E then Some (AuthProviders_EmailAndPassword E)
      else if m = EMAIL_LINK_SIGN_IN_METHOD E then Some (AuthProviders_EmailLink E)
      else if m = GOOGLE_PROVIDER_ID E then Some (AuthProviders_Google E)
      else None)"

definition getEmailAuthMethod :: "env \<Rightarrow> string option \<Rightarrow> string list io" where
  "getEmailAuthMethod E em =
     io_bind
       (case em of
          None \<Rightarrow> io_return []
        | Some e \<Rightarrow>
            if e \<noteq> []
            then io_bind (await E (FetchSignInMethodsForEmail e)) (\<lambda>_. io_return (signInMethods E e))
            else io_return [])
       (\<lambda>methods.
          let results = map the (filter truthy (map (method_to_provider E) methods)) in
          io_bind
            (if length results = 0 then logger Log ''No auth methods for email'' else io_return ())
            (\<lambda>_. io_return results))"

text \<open>\<open>v || ''\<close> on a value of type \<open>string | null\<close>.\<close>

definition or_empty :: "string option \<Rightarrow> string" where
  "or_empty v = (case v of None \<Rightarrow> [] | Some s \<Rightarrow> s)"

text \<open>
  \<open>processAuthUser\<close>, the reconciliation, is the sequence of its statements, in
  definitions of their own. The choice of the provider (the \<open>if\<close> chain on
  \<open>authUser\<close> and \<open>_nextProvider\<close>) is \<open>resolve_provider\<close>: \<open>null\<close> without a backend user;
  with one, a truthy hint is taken, cleared and stored, and otherwise the stored id is
  read, \<open>null\<close> and \<open>''\<close> both giving \<open>''\<close>.
\<close>

definition resolve_provider :: "env \<Rightarrow> string option io" where
  "resolve_provider E =
     (case currentUser E of
        None \<Rightarrow> io_return None
      | Some u \<Rightarrow>
          io_bind (io_get nextProvider) (\<lambda>hint.
            if truthy hint
            then io_bind (io_modify (\<lambda>c. c\<lparr>nextProvider := None\<rparr>)) (\<lambda>_.
                 io_bind (Storage_setValue E AuthProviderIdKey (the hint)) (\<lambda>_.
                 io_return hint))
            else io_bind (Storage_getValue E AuthProviderIdKey) (\<lambda>v.
                 io_return (Some (or_empty v)))))"

text \<open>
  \<open>authUser?.email && await this.getEmailAuthMethod(authUser.email)\<close>: the methods, or a
  falsy value when there is no user or no email.
\<close>

definition user_methods :: "env \<Rightarrow> string list option io" where
  "user_methods E =
     (case currentUser E of
        None \<Rightarrow> io_return None
      | Some u \<Rightarrow>
          if truthy (email u)
          then io_bind (getEmailAuthMethod E (email u)) (\<lambda>ms. io_return (Some ms))
          else io_return None)"

text \<open>
  The \<open>if (signedIn)\<close> block that ends \<open>processAuthUser\<close>: \<open>needsCreatePassword\<close> reads
  the committed snapshot, \<open>resetPassword\<close> tests the local \<open>provider\<close>, and \<open>&&\<close> reads the
  reset flag only when that provider is EmailLink.
\<close>

definition check_password_mode :: "env \<Rightarrow> bool \<Rightarrow> string option \<Rightarrow> unit io" where
  "check_password_mode E signedIn provider =
     (if signedIn
      then
        io_bind (io_get (needsCreatePassword E)) (\<lambda>createPassword.
        io_bind
          (if provider = Some (AuthProviders_EmailLink E)
           then io_bind (Storage_getValue E PasswordResetRequestedKey) (\<lambda>v.
                io_return (v = Some ''true''))
           else io_return False)
          (\<lambda>resetPassword.
             if createPassword = Some True \<or> resetPassword
             then io_bind (logger Log ''Setting _setPasswordMode = true createPassword ='') (\<lambda>_.
                  io_modify (\<lambda>c. c\<lparr>setPasswordMode := True\<rparr>))
             else io_return ()))
      else io_return ())"

text \<open>
  The statements of \<open>processAuthUser\<close> up to the commit. The candidate \<open>result\<close> is handed
  to the subscribers of the pre-process event, who may change the object before the
  event resolves; that object is then committed. The block yields the two locals that
  the rest of \<open>processAuthUser\<close> reads, \<open>signedIn\<close> and \<open>provider\<close>.
\<close>

definition commit_snapshot :: "env \<Rightarrow> (bool \<times> string option) io" where
  "commit_snapshot E =
     io_bind (io_modify (\<lambda>c. c\<lparr>firstInit := False\<rparr>)) (\<lambda>_.
     io_bind (user_methods E) (\<lambda>methods.
     io_bind (resolve_provider E) (\<lambda>provider.
     io_bind (logger Log ''Initializing with user:'') (\<lambda>_.
     io_bind (io_get authUser) (\<lambda>previous.
       let signedIn = (previous = None \<and> currentUser E \<noteq> None);
           result =
             (case createAuthUser E of
                None \<Rightarrow> None
              | Some a \<Rightarrow>
                  Some (AuthUser.extend a
                    \<lparr>providers = (case methods of None \<Rightarrow> [] | Some ms \<Rightarrow> ms),
                     currentProvider = provider\<rparr>))
       in
     io_bind (await E (OnPreProcessUser result)) (\<lambda>_.
     io_bind (io_modify (\<lambda>c. c\<lparr>authUser := map_option (onPreProcessUser E) result\<rparr>)) (\<lambda>_.
     io_return (signedIn, provider))))))))"

definition processAuthUser :: "env \<Rightarrow> unit io" where
  "processAuthUser E =
     io_bind (commit_snapshot E) (\<lambda>locals.
     check_password_mode E (fst locals) (snd locals))"

text \<open>\<open>reason || 'empty'\<close>\<close>

definition reason_or_empty :: "string option \<Rightarrow> string" where
  "reason_or_empty reason = (case reason of None \<Rightarrow> ''empty'' | Some r \<Rightarrow> if r = [] then ''empty'' else r)"

definition sendMagicLinkRequest :: "env \<Rightarrow> string \<Rightarrow> string option \<Rightarrow> unit io" where
  "sendMagicLinkRequest E em reason =
     (let e = prepareEmail E (Some em) in
      io_bind (logger Log ''sendMagicLinkRequest'') (\<lambda>_.
      io_bind (Storage_setValue E UserSignInEmailStorageKey e) (\<lambda>_.
      io_bind (Storage_setValue E MagicLinkReasonKey (reason_or_empty reason)) (\<lambda>_.
      io_bind (Storage_remove E PasswordResetRequestedKey) (\<lambda>_.
      await E (SendSignInLinkToEmail e (locationUrl E)))))))"

definition processEmailLink :: "env \<Rightarrow> EmailLinkResult io" where
  "processEmailLink E =
     io_bind (Storage_getValue E UserSignInEmailStorageKey) (\<lambda>stored.
       let url = locationUrl E; em = prepareEmail E stored in
       try_catch
         (if \<not> isSignInWithEmailLink E url
          then io_bind (logger Log ''Current path is not sign in link:'') (\<lambda>_.
               io_return (EmailLinkResult False (Some InvalidLink) None))
          else if em = []
          then io_bind (logger Log ''User was not performing a sign in'') (\<lambda>_.
               io_return (EmailLinkResult False (Some NoEmail) None))
          else
            io_bind (setNextProvider (AuthProviders_EmailLink E)) (\<lambda>_.
            io_bind (await E (SignInWithEmailLink em url)) (\<lambda>_.
            io_bind (Storage_getValue E MagicLinkReasonKey) (\<lambda>reason.
            io_bind (logger Log ''processEmailLink reason ='') (\<lambda>_.
            io_bind
              (if reason = Some (MagicLinkRequestReasons_PasswordReset E)
               then io_bind (Storage_setValue E PasswordResetRequestedKey ''true'') (\<lambda>_.
                    io_modify (\<lambda>c. c\<lparr>setPasswordMode := True\<rparr>))
               else io_return ())
              (\<lambda>_.
            io_bind (Storage_remove E MagicLinkReasonKey) (\<lambda>_.
            io_bind (Storage_remove E UserSignInEmailStorageKey) (\<lambda>_.
            io_bind (logger Log ''processEmailLink succeed with reason ='') (\<lambda>_.
            io_bind (io_modify (\<lambda>c. c\<lparr>magicLinkSucceeded := magicLinkSucceeded c @ [reason]\<rparr>)) (\<lambda>_.
            io_return (EmailLinkResult True None None)))))))))))
         (\<lambda>err.
            io_bind (setNextProvider (AuthProviders_None E)) (\<lambda>_.
            io_bind (logger Error ''Failed to perform a sign in for user:'') (\<lambda>_.
            io_return (EmailLinkResult False (Some (LinkFailure err)) (Some em))))))"


text \<open>\<open>err.code == '-3' || (err.message && err.message.includes('error -3'))\<close>\<close>

definition is_cancellation :: "js_error \<Rightarrow> bool" where
  "is_cancellation err \<longleftrightarrow>
     loose_eq_minus3 (err_code err) \<or>
     (case err_message err of None \<Rightarrow> False | Some m \<Rightarrow> m \<noteq> [] \<and> str_includes m ''error -3'')"

definition doGoogleSignIn :: "env \<Rightarrow> FirebaseUser option io" where
  "doGoogleSignIn E = io_bind (await E SignInWithPopup) (\<lambda>_. io_return (popupResult E))"

text \<open>
  \<open>signInWithGoogle\<close>. The inner \<open>try\<close> returns \<open>false\<close> from the function when the link
  succeeds and falls through to \<open>throw err\<close> when it fails; \<open>currentUser.linkWithCredential\<close>
  on no user is a \<open>TypeError\<close> inside that \<open>try\<close>.
\<close>

definition signInWithGoogle :: "env \<Rightarrow> bool io" where
  "signInWithGoogle E =
     try_catch
       (io_bind (setNextProvider (AuthProviders_Google E)) (\<lambda>_.
        io_bind (doGoogleSignIn E) (\<lambda>result.
          case result of
            None \<Rightarrow>
              io_bind (logger Warn ''Google SignIn: no result (probably canceled)'') (\<lambda>_.
              io_bind (setNextProvider (AuthProviders_None E)) (\<lambda>_.
              io_return False))
          | Some r \<Rightarrow>
              io_bind (logger Log ''Google: Successfully signed in with user'') (\<lambda>_.
              io_return True))))
       (\<lambda>err.
          io_bind (setNextProvider (AuthProviders_None E)) (\<lambda>_.
            if is_cancellation err
            then io_bind (logger Log ''Cancel sign in with google'') (\<lambda>_. io_return False)
            else
              io_bind (logger Warn ''Google Sign in error:'') (\<lambda>_.
                if err_code err = CodeStr ''auth/account-exists-with-different-credential''
                then
                  io_bind
                    (try_catch
                       (io_bind
                          (case currentUser E of
                             None \<Rightarrow> io_throw (TypeError ''currentUser is null'')
                           | Some u \<Rightarrow> await E (LinkWithCredential (err_email err) (locationUrl E)))
                          (\<lambda>_. io_return (Some False)))
                       (\<lambda>innerErr. io_return None))
                    (\<lambda>early. case early of Some b \<Rightarrow> io_return b | None \<Rightarrow> io_throw err)
                else io_throw err)))"

text \<open>\<open>doInitialization\<close>: the increment and the callback in the \<open>try\<close>, the decrement in the \<open>finally\<close>.\<close>

definition doInitialization :: "'a io \<Rightarrow> 'a io" where
  "doInitialization cb =
     try_finally
       (io_bind (io_modify (\<lambda>c. c\<lparr>initializing_value := initializing_value c + 1\<rparr>)) (\<lambda>_.
        io_bind cb (\<lambda>res.
        io_return res)))
       (io_modify (\<lambda>c. c\<lparr>initializing_value := initializing_value c - 1\<rparr>))"

definition servicesSignOut :: "env \<Rightarrow> unit io" where
  "servicesSignOut E = await E GoogleSignOut"

text \<open>
  \<open>signOut\<close> calls \<open>doInitialization\<close> and neither awaits nor returns its promise.
\<close>

definition signOut_callback :: "env \<Rightarrow> unit io" where
  "signOut_callback E =
     try_catch
       (io_bind (io_modify (\<lambda>c. c\<lparr>setPasswordMode := False\<rparr>)) (\<lambda>_.
        io_bind (await E OnSignOut) (\<lambda>_.
        io_bind (servicesSignOut E) (\<lambda>_.
        io_bind (Storage_remove E AuthProviderIdKey) (\<lambda>_.
        io_bind (Storage_remove E MagicLinkReasonKey) (\<lambda>_.
        await E BackendSignOut))))))
       (\<lambda>err.
          io_bind (logger Warn ''Failed to sign out!'') (\<lambda>_.
          io_bind (logger ConsoleError (or_empty (err_message err))) (\<lambda>_.
          io_throw err)))"

definition signOut :: "env \<Rightarrow> unit io" where
  "signOut E =
     io_bind (logger Log ''Signing out...'') (\<lambda>_.
     not_awaited (doInitialization (signOut_callback E)))"

text \<open>
  The handler that the constructor registers with \<open>onAuthStateChanged\<close>: it runs the
  reconciliation under \<open>doInitialization\<close>, whose promise it does not await either.
\<close>

definition onAuthStateChanged :: "env \<Rightarrow> unit io" where
  "onAuthStateChanged E = not_awaited (doInitialization (processAuthUser E))"

section \<open>Vocabulary of the properties\<close>

text \<open>An operation keeps an invariant of the state, whatever its outcome.\<close>

definition preserves :: "(controller \<Rightarrow> bool) \<Rightarrow> 'a io \<Rightarrow> bool" where
  "preserves I m \<longleftrightarrow> (\<forall>c. I c \<longrightarrow> I (snd (m c)))"

text \<open>
  The gate is held at level \<open>n\<close>, and every observation of \<open>initializing\<close> made after the
  observations \<open>before\<close> was \<open>true\<close>.
\<close>

definition gate_held :: "int \<Rightarrow> bool list \<Rightarrow> controller \<Rightarrow> bool" where
  "gate_held n before c \<longleftrightarrow>
     initializing_value c = n \<and>
     (\<exists>new. initializing_seen c = before @ new \<and> list_all (\<lambda>b. b) new)"


text \<open>The calls that an operation added to those already made.\<close>

definition new_calls :: "controller \<Rightarrow> controller \<Rightarrow> call list" where
  "new_calls c c' = drop (length (calls c)) (calls c')"



section \<open>Sample collaborators\<close>

text \<open>
  A user, and an environment in which every call resolves and the pre-process
  subscribers leave the snapshot alone; the enum values are sample values. The concrete
  runs below vary it field by field.
\<close>

definition sample_user :: FirebaseUser where
  "sample_user =
     \<lparr>uid = ''u1'', displayName = None, email = Some ''foo@bar.com'', emailVerified = True,
      phoneNumber = None, photoURL = None\<rparr>"

definition sample_env :: env where
  "sample_env =
     \<lparr>AuthProviders_None = '''', AuthProviders_EmailAndPassword = ''password'',
      AuthProviders_EmailLink = ''emaillink'', AuthProviders_Google = ''google'',
      AuthProviders_DevLogin = ''devLogin'', MagicLinkRequestReasons_PasswordReset = ''password'',
      EMAIL_PASSWORD_SIGN_IN_METHOD = ''password'', EMAIL_LINK_SIGN_IN_METHOD = ''emailLink'',
      GOOGLE_PROVIDER_ID = ''google.com'', currentUser = Some sample_user,
      locationUrl = ''https://app.example/finish'', prepareEmail = or_empty,
      rejects = (\<lambda>h k. None), signInMethods = (\<lambda>e. [''emailLink'']),
      isSignInWithEmailLink = (\<lambda>u. True), popupResult = Some sample_user,
      onPreProcessUser = (\<lambda>a. a)\<rparr>"

definition sample_snapshot :: AuthUserWithProviders where
  "sample_snapshot =
     AuthUser.extend sample_user \<lparr>providers = [''emaillink''], currentProvider = Some ''emaillink''\<rparr>"

text \<open>A controller that is signed in, initialized and idle.\<close>

definition signed_in :: controller where
  "signed_in = (constructed Map.empty)\<lparr>authUser := Some sample_snapshot, firstInit := False\<rparr>"

definition sample_error :: "string \<Rightarrow> js_error" where
  "sample_error code = JsError (CodeStr code) (Some ''failed'') (Some ''foo@bar.com'')"

text \<open>The environment in which exactly the calls that satisfy \<open>bad\<close> reject, with \<open>e\<close>.\<close>

definition rejecting :: "(call list \<Rightarrow> call \<Rightarrow> bool) \<Rightarrow> js_error \<Rightarrow> env" where
  "rejecting bad e = sample_env\<lparr>rejects := (\<lambda>h k. if bad h k then Some e else None)\<rparr>"


section \<open>Running the operations\<close>

named_theorems io_defs

lemmas [io_defs] = io_return_def io_throw_def io_bind_def io_get_def io_modify_def try_catch_def
  try_finally_def not_awaited_def await_def logger_def Storage_getValue_def Storage_setValue_def
  Storage_remove_def

lemmas key_defs =
  AuthProviderIdKey_def UserSignInEmailStorageKey_def MagicLinkReasonKey_def PasswordResetRequestedKey_def

lemmas sample_defs = sample_env_def sample_user_def sample_error_def rejecting_def constructed_def
  sample_snapshot_def signed_in_def

lemmas reconcile_defs =
  processAuthUser_def commit_snapshot_def user_methods_def resolve_provider_def check_password_mode_def
  getEmailAuthMethod_def method_to_provider_def createAuthUser_def needsCreatePassword_def
  truthy_def or_empty_def initializing_def Let_def AuthUser.defs AuthUserWithProviders.defs

text \<open>A bind that resolved went through a first part that resolved.\<close>

lemma io_bind_InrE:
  assumes "io_bind m f c = (Inr y, c'')"
  obtains x c' where "m c = (Inr x, c')" and "f x c' = (Inr y, c'')"
  using assms by (auto simp: io_bind_def split: prod.splits sum.splits)

lemma io_return_run [simp]: "io_return x c = (r, c') \<longleftrightarrow> r = Inr x \<and> c' = c"
  by (auto simp: io_return_def)

lemma io_throw_run [simp]: "io_throw e c = (r, c') \<longleftrightarrow> r = Inl e \<and> c' = c"
  by (auto simp: io_throw_def)

lemma io_get_run [simp]: "io_get g c = (r, c') \<longleftrightarrow> r = Inr (g c) \<and> c' = c"
  by (auto simp: io_get_def)

lemma io_modify_run [simp]: "io_modify g c = (r, c') \<longleftrightarrow> r = Inr () \<and> c' = g c"
  by (auto simp: io_modify_def)

lemma logger_run [simp]:
  "logger lvl msg c = (r, c') \<longleftrightarrow> r = Inr () \<and> c' = c\<lparr>logged := logged c @ [(lvl, msg)]\<rparr>"
  by (auto simp: logger_def)

lemma await_Inr [simp]:
  "await E k c = (Inr u, c') \<longleftrightarrow>
     rejects E (calls c) k = None \<and>
     c' = c\<lparr>calls := calls c @ [k], initializing_seen := initializing_seen c @ [initializing c]\<rparr>"
  by (auto simp: await_def Let_def split: option.splits)

lemma Storage_getValue_Inr [simp]:
  "Storage_getValue E k c = (Inr v, c') \<longleftrightarrow>
     rejects E (calls c) (StorageGetValue k) = None \<and> v = Storage c k \<and>
     c' = c\<lparr>calls := calls c @ [StorageGetValue k],
            initializing_seen := initializing_seen c @ [initializing c]\<rparr>"
  by (auto simp: Storage_getValue_def elim!: io_bind_InrE) (auto simp: io_bind_def await_def Let_def)

lemma Storage_setValue_Inr [simp]:
  "Storage_setValue E k v c = (Inr u, c') \<longleftrightarrow>
     rejects E (calls c) (StorageSetValue k v) = None \<and>
     c' = c\<lparr>calls := calls c @ [StorageSetValue k v],
            initializing_seen := initializing_seen c @ [initializing c],
            Storage := (Storage c)(k \<mapsto> v)\<rparr>"
  by (auto simp: Storage_setValue_def elim!: io_bind_InrE) (auto simp: io_bind_def await_def Let_def)

lemma Storage_remove_Inr [simp]:
  "Storage_remove E k c = (Inr u, c') \<longleftrightarrow>
     rejects E (calls c) (StorageRemove k) = None \<and>
     c' = c\<lparr>calls := calls c @ [StorageRemove k],
            initializing_seen := initializing_seen c @ [initializing c],
            Storage := (Storage c)(k := None)\<rparr>"
  by (auto simp: Storage_remove_def elim!: io_bind_InrE) (auto simp: io_bind_def await_def Let_def)



subsection \<open>Invariants kept on every outcome\<close>

lemma preserves_return: "preserves I (io_return x)"
  by (simp add: preserves_def io_return_def)

lemma preserves_throw: "preserves I (io_throw e)"
  by (simp add: preserves_def io_throw_def)

lemma preserves_get: "preserves I (io_get g)"
  by (simp add: preserves_def io_get_def)

lemma preserves_modify: "(\<And>c. I c \<Longrightarrow> I (g c)) \<Longrightarrow> preserves I (io_modify g)"
  by (simp add: preserves_def io_modify_def)

lemma preserves_logger:
  "(\<And>c. I c \<Longrightarrow> I (c\<lparr>logged := logged c @ [(lvl, msg)]\<rparr>)) \<Longrightarrow> preserves I (logger lvl msg)"
  by (simp add: preserves_def logger_def io_modify_def)

lemma preserves_await:
  "(\<And>c. I c \<Longrightarrow>
      I (c\<lparr>calls := calls c @ [k], initializing_seen := initializing_seen c @ [initializing c]\<rparr>)) \<Longrightarrow>
   preserves I (await E k)"
  by (simp add: preserves_def await_def Let_def split: option.splits)

lemma preserves_bind:
  "preserves I m \<Longrightarrow> (\<And>x. preserves I (f x)) \<Longrightarrow> preserves I (io_bind m f)"
  unfolding preserves_def io_bind_def
  by (auto split: prod.splits sum.splits)

lemma preserves_try_catch:
  "preserves I m \<Longrightarrow> (\<And>e. preserves I (h e)) \<Longrightarrow> preserves I (try_catch m h)"
  unfolding preserves_def try_catch_def
  by (auto split: prod.splits sum.splits)

lemma preserves_if:
  "(b \<Longrightarrow> preserves I m) \<Longrightarrow> (\<not> b \<Longrightarrow> preserves I n) \<Longrightarrow> preserves I (if b then m else n)"
  by simp

lemma preserves_case_option:
  "(x = None \<Longrightarrow> preserves I m) \<Longrightarrow> (\<And>y. x = Some y \<Longrightarrow> preserves I (n y)) \<Longrightarrow>
   preserves I (case x of None \<Rightarrow> m | Some y \<Rightarrow> n y)"
  by (cases x) simp_all

lemmas preserves_intros =
  preserves_return preserves_throw preserves_get preserves_bind preserves_try_catch
  preserves_if preserves_case_option


subsection \<open>The reconciliation\<close>









lemma new_calls_append: "calls c' = calls c @ xs \<Longrightarrow> new_calls c c' = xs"
  by (simp add: new_calls_def)


section \<open>Claims\<close>

subsection \<open>Provider of the committed snapshot\<close>





subsection \<open>Password-setup mode\<close>





subsection \<open>Password update\<close>
















subsection \<open>Sign-out\<close>

lemma signOut_resolves: "fst (signOut E c) = Inr ()"
  by (simp add: signOut_def not_awaited_def logger_def io_bind_def io_modify_def
      split: prod.splits sum.splits)

text \<open>
  C4: the backend's sign-out call rejects. The callback logs the failure and rethrows, and
  \<open>doInitialization\<close> rejects with it; \<open>signOut\<close> awaits nothing, so its caller sees it
  resolve, and the rejection is left unhandled.
\<close>

theorem signOut_failure_does_not_reach_the_caller:
  "fst (doInitialization
          (signOut_callback (rejecting (\<lambda>h k. k = BackendSignOut) (sample_error ''auth/network-request-failed'')))
          (constructed Map.empty))
     = Inl (sample_error ''auth/network-request-failed'') \<and>
   fst (signOut (rejecting (\<lambda>h k. k = BackendSignOut) (sample_error ''auth/network-request-failed''))
          (constructed Map.empty))
     = Inr () \<and>
   logged (snd (signOut (rejecting (\<lambda>h k. k = BackendSignOut) (sample_error ''auth/network-request-failed''))
          (constructed Map.empty)))
     = [(Log, ''Signing out...''), (Warn, ''Failed to sign out!''), (ConsoleError, ''failed'')] \<and>
   unhandled (snd (signOut (rejecting (\<lambda>h k. k = BackendSignOut) (sample_error ''auth/network-request-failed''))
          (constructed Map.empty)))
     = [sample_error ''auth/network-request-failed'']"
  by (simp add: signOut_def signOut_callback_def servicesSignOut_def doInitialization_def
      or_empty_def initializing_def sample_defs io_defs key_defs)


subsection \<open>Magic link\<close>




lemma setNextProvider_run [simp]:
  "setNextProvider p c = (r, c') \<longleftrightarrow>
     r = Inr () \<and> c' = c\<lparr>nextProvider := Some p, logged := logged c @ [(Log, ''next provider =>'')]\<rparr>"
  by (auto simp: setNextProvider_def io_defs)





text \<open>The redemption when every call resolves, the URL is recognised and an email is pending.\<close>

lemma processEmailLink_success:
  assumes "\<forall>h k. rejects E h k = None"
    and "isSignInWithEmailLink E (locationUrl E)"
    and "prepareEmail E (Storage c UserSignInEmailStorageKey) \<noteq> []"
  shows "fst (processEmailLink E c) = Inr (EmailLinkResult True None None)"
    and "new_calls c (snd (processEmailLink E c)) =
           [StorageGetValue UserSignInEmailStorageKey,
            SignInWithEmailLink (prepareEmail E (Storage c UserSignInEmailStorageKey)) (locationUrl E),
            StorageGetValue MagicLinkReasonKey] @
           (if Storage c MagicLinkReasonKey = Some (MagicLinkRequestReasons_PasswordReset E)
            then [StorageSetValue PasswordResetRequestedKey ''true''] else []) @
           [StorageRemove MagicLinkReasonKey, StorageRemove UserSignInEmailStorageKey]"
    and "nextProvider (snd (processEmailLink E c)) = Some (AuthProviders_EmailLink E)"
    and "magicLinkSucceeded (snd (processEmailLink E c)) =
           magicLinkSucceeded c @ [Storage c MagicLinkReasonKey]"
    and "Storage (snd (processEmailLink E c)) UserSignInEmailStorageKey = None"
    and "Storage (snd (processEmailLink E c)) MagicLinkReasonKey = None"
proof -
  let ?reset = "Storage c MagicLinkReasonKey = Some (MagicLinkRequestReasons_PasswordReset E)"
  have run: "processEmailLink E c =
      (Inr (EmailLinkResult True None None),
       c\<lparr>nextProvider := Some (AuthProviders_EmailLink E),
         setPasswordMode := (?reset \<or> setPasswordMode c),
         Storage :=
           (if ?reset then (Storage c)(PasswordResetRequestedKey \<mapsto> ''true'') else Storage c)
             (MagicLinkReasonKey := None, UserSignInEmailStorageKey := None),
         logged := logged c @
           [(Log, ''next provider =>''), (Log, ''processEmailLink reason =''),
            (Log, ''processEmailLink succeed with reason ='')],
         calls := calls c @
           [StorageGetValue UserSignInEmailStorageKey,
            SignInWithEmailLink (prepareEmail E (Storage c UserSignInEmailStorageKey)) (locationUrl E),
            StorageGetValue MagicLinkReasonKey] @
           (if ?reset then [StorageSetValue PasswordResetRequestedKey ''true''] else []) @
           [StorageRemove MagicLinkReasonKey, StorageRemove UserSignInEmailStorageKey],
         magicLinkSucceeded := magicLinkSucceeded c @ [Storage c MagicLinkReasonKey],
         initializing_seen := initializing_seen c @
           replicate (if ?reset then 6 else 5) (initializing c)\<rparr>)"
  proof (cases ?reset)
    case True
    with assms show ?thesis
      by (simp add: processEmailLink_def setNextProvider_def io_defs Let_def initializing_def
            key_defs numeral_eq_Suc)
  next
    case False
    with assms show ?thesis
      by (simp add: processEmailLink_def setNextProvider_def io_defs Let_def initializing_def
            key_defs numeral_eq_Suc)
  qed
  show "fst (processEmailLink E c) = Inr (EmailLinkResult True None None)"
    and "new_calls c (snd (processEmailLink E c)) =
           [StorageGetValue UserSignInEmailStorageKey,
            SignInWithEmailLink (prepareEmail E (Storage c UserSignInEmailStorageKey)) (locationUrl E),
            StorageGetValue MagicLinkReasonKey] @
           (if ?reset then [StorageSetValue PasswordResetRequestedKey ''true''] else []) @
           [StorageRemove MagicLinkReasonKey, StorageRemove UserSignInEmailStorageKey]"
    and "nextProvider (snd (processEmailLink E c)) = Some (AuthProviders_EmailLink E)"
    and "magicLinkSucceeded (snd (processEmailLink E c)) =
           magicLinkSucceeded c @ [Storage c MagicLinkReasonKey]"
    and "Storage (snd (processEmailLink E c)) UserSignInEmailStorageKey = None"
    and "Storage (snd (processEmailLink E c)) MagicLinkReasonKey = None"
    unfolding run by (simp_all add: new_calls_def key_defs)
qed

text \<open>
  C6, as stated, fails for an email whose prepared form is empty: every call resolves and
  the backend recognises the URL, the request phase resolves, and the redemption returns
  \<open>noemail\<close> and leaves both pending keys in the store.
\<close>

theorem magic_link_round_trip_empty_email:
  "(\<forall>h k. rejects sample_env h k = None) \<and>
   isSignInWithEmailLink sample_env (locationUrl sample_env) \<and>
   fst (sendMagicLinkRequest sample_env [] (Some ''signin'') (constructed Map.empty)) = Inr () \<and>
   fst (processEmailLink sample_env
          (snd (sendMagicLinkRequest sample_env [] (Some ''signin'') (constructed Map.empty))))
     = Inr (EmailLinkResult False (Some NoEmail) None) \<and>
   Storage (snd (processEmailLink sample_env
          (snd (sendMagicLinkRequest sample_env [] (Some ''signin'') (constructed Map.empty)))))
     UserSignInEmailStorageKey = Some [] \<and>
   Storage (snd (processEmailLink sample_env
          (snd (sendMagicLinkRequest sample_env [] (Some ''signin'') (constructed Map.empty)))))
     MagicLinkReasonKey = Some ''signin''"
  by (simp add: sendMagicLinkRequest_def processEmailLink_def reason_or_empty_def truthy_def
        or_empty_def sample_defs io_defs Let_def key_defs)

text \<open>
  C6, amended: the request phase runs where every call resolves, and stores the prepared
  email and the reason; the redemption then runs on a controller that holds the store the
  request left (the same controller, or one constructed after the redirect), where every
  call resolves. If the backend recognises the URL and the stored email is non-empty once
  prepared, the redemption returns success, having read the stored email, signed in with
  it and the URL, read the reason, set the reset flag for a password reset, and removed
  the reason and the email, in that order; the hint is EmailLink, the stored reason is
  passed to \<open>magicLinkSucceeded\<close>, and neither the pending email nor the pending reason is
  in the store. If the backend does not recognise the URL, the redemption returns
  \<open>invalidLink\<close>; if it does and the stored email is empty once prepared, \<open>noemail\<close>; in
  both cases the store is as the request left it.
\<close>

theorem magic_link_round_trip:
  assumes "\<forall>h k. rejects E h k = None"
    and "\<forall>h k. rejects E' h k = None"
    and "Storage c' = Storage (snd (sendMagicLinkRequest E em reason c))"
  shows "fst (sendMagicLinkRequest E em reason c) = Inr () \<and>
         Storage c' UserSignInEmailStorageKey = Some (prepareEmail E (Some em)) \<and>
         Storage c' MagicLinkReasonKey = Some (reason_or_empty reason) \<and>
         (isSignInWithEmailLink E' (locationUrl E') \<and>
          prepareEmail E' (Some (prepareEmail E (Some em))) \<noteq> [] \<longrightarrow>
            fst (processEmailLink E' c') = Inr (EmailLinkResult True None None) \<and>
            new_calls c' (snd (processEmailLink E' c')) =
              [StorageGetValue UserSignInEmailStorageKey,
               SignInWithEmailLink (prepareEmail E' (Some (prepareEmail E (Some em)))) (locationUrl E'),
               StorageGetValue MagicLinkReasonKey] @
              (if reason_or_empty reason = MagicLinkRequestReasons_PasswordReset E'
               then [StorageSetValue PasswordResetRequestedKey ''true''] else []) @
              [StorageRemove MagicLinkReasonKey, StorageRemove UserSignInEmailStorageKey] \<and>
            nextProvider (snd (processEmailLink E' c')) = Some (AuthProviders_EmailLink E') \<and>
            magicLinkSucceeded (snd (processEmailLink E' c')) =
              magicLinkSucceeded c' @ [Some (reason_or_empty reason)] \<and>
            Storage (snd (processEmailLink E' c')) UserSignInEmailStorageKey = None \<and>
            Storage (snd (processEmailLink E' c')) MagicLinkReasonKey = None) \<and>
         (\<not> isSignInWithEmailLink E' (locationUrl E') \<longrightarrow>
            fst (processEmailLink E' c') = Inr (EmailLinkResult False (Some InvalidLink) None) \<and>
            Storage (snd (processEmailLink E' c')) = Storage c') \<and>
         (isSignInWithEmailLink E' (locationUrl E') \<and>
          prepareEmail E' (Some (prepareEmail E (Some em))) = [] \<longrightarrow>
            fst (processEmailLink E' c') = Inr (EmailLinkResult False (Some NoEmail) None) \<and>
            Storage (snd (processEmailLink E' c')) = Storage c')"
proof -
  have sent: "sendMagicLinkRequest E em reason c =
      (Inr (),
       c\<lparr>Storage := (Storage c)
            (UserSignInEmailStorageKey \<mapsto> prepareEmail E (Some em),
             MagicLinkReasonKey \<mapsto> reason_or_empty reason,
             PasswordResetRequestedKey := None),
         logged := logged c @ [(Log, ''sendMagicLinkRequest'')],
         calls := calls c @
           [StorageSetValue UserSignInEmailStorageKey (prepareEmail E (Some em)),
            StorageSetValue MagicLinkReasonKey (reason_or_empty reason),
            StorageRemove PasswordResetRequestedKey,
            SendSignInLinkToEmail (prepareEmail E (Some em)) (locationUrl E)],
         initializing_seen := initializing_seen c @
           [initializing c, initializing c, initializing c, initializing c]\<rparr>)"
    using assms(1) by (simp add: sendMagicLinkRequest_def io_defs Let_def initializing_def)
  have stored: "Storage c' UserSignInEmailStorageKey = Some (prepareEmail E (Some em))"
    "Storage c' MagicLinkReasonKey = Some (reason_or_empty reason)"
    unfolding assms(3) sent by (simp_all add: key_defs)
  have redeemed:
    "fst (processEmailLink E' c') = Inr (EmailLinkResult True None None) \<and>
     new_calls c' (snd (processEmailLink E' c')) =
       [StorageGetValue UserSignInEmailStorageKey,
        SignInWithEmailLink (prepareEmail E' (Some (prepareEmail E (Some em)))) (locationUrl E'),
        StorageGetValue MagicLinkReasonKey] @
       (if reason_or_empty reason = MagicLinkRequestReasons_PasswordReset E'
        then [StorageSetValue PasswordResetRequestedKey ''true''] else []) @
       [StorageRemove MagicLinkReasonKey, StorageRemove UserSignInEmailStorageKey] \<and>
     nextProvider (snd (processEmailLink E' c')) = Some (AuthProviders_EmailLink E') \<and>
     magicLinkSucceeded (snd (processEmailLink E' c')) =
       magicLinkSucceeded c' @ [Some (reason_or_empty reason)] \<and>
     Storage (snd (processEmailLink E' c')) UserSignInEmailStorageKey = None \<and>
     Storage (snd (processEmailLink E' c')) MagicLinkReasonKey = None"
    if link: "isSignInWithEmailLink E' (locationUrl E')"
      and email: "prepareEmail E' (Some (prepareEmail E (Some em))) \<noteq> []"
  proof -
    have pending: "prepareEmail E' (Storage c' UserSignInEmailStorageKey) \<noteq> []"
      using email by (simp add: stored)
    show ?thesis
      using processEmailLink_success[OF assms(2) link pending] by (simp add: stored)
  qed
  have refused:
    "fst (processEmailLink E' c') = Inr (EmailLinkResult False (Some InvalidLink) None) \<and>
     Storage (snd (processEmailLink E' c')) = Storage c'"
    if "\<not> isSignInWithEmailLink E' (locationUrl E')"
    using that assms(2) by (simp add: processEmailLink_def io_defs Let_def)
  have empty:
    "fst (processEmailLink E' c') = Inr (EmailLinkResult False (Some NoEmail) None) \<and>
     Storage (snd (processEmailLink E' c')) = Storage c'"
    if "isSignInWithEmailLink E' (locationUrl E')"
      and "prepareEmail E' (Some (prepareEmail E (Some em))) = []"
    using that assms(2) stored by (simp add: processEmailLink_def io_defs Let_def)
  show ?thesis
    using redeemed refused empty stored by (simp add: sent)
qed

theorem magic_link_round_trip_witness:
  "(\<forall>h k. rejects sample_env h k = None) \<and>
   isSignInWithEmailLink sample_env (locationUrl sample_env) \<and>
   prepareEmail sample_env (Some (prepareEmail sample_env (Some ''foo@bar.com''))) \<noteq> [] \<and>
   fst (sendMagicLinkRequest sample_env ''foo@bar.com'' (Some ''password'') (constructed Map.empty)) = Inr () \<and>
   fst (processEmailLink sample_env
          (snd (sendMagicLinkRequest sample_env ''foo@bar.com'' (Some ''password'') (constructed Map.empty)))) =
     Inr (EmailLinkResult True None None) \<and>
   new_calls (snd (sendMagicLinkRequest sample_env ''foo@bar.com'' (Some ''password'') (constructed Map.empty)))
     (snd (processEmailLink sample_env
          (snd (sendMagicLinkRequest sample_env ''foo@bar.com'' (Some ''password'') (constructed Map.empty))))) =
     [StorageGetValue UserSignInEmailStorageKey,
      SignInWithEmailLink ''foo@bar.com'' ''https://app.example/finish'',
      StorageGetValue MagicLinkReasonKey,
      StorageSetValue PasswordResetRequestedKey ''true'',
      StorageRemove MagicLinkReasonKey, StorageRemove UserSignInEmailStorageKey] \<and>
   Storage (snd (processEmailLink sample_env
          (snd (sendMagicLinkRequest sample_env ''foo@bar.com'' (Some ''password'') (constructed Map.empty)))))
     UserSignInEmailStorageKey = None \<and>
   Storage (snd (processEmailLink sample_env
          (snd (sendMagicLinkRequest sample_env ''foo@bar.com'' (Some ''password'') (constructed Map.empty)))))
     MagicLinkReasonKey = None \<and>
   \<not> isSignInWithEmailLink (sample_env\<lparr>isSignInWithEmailLink := (\<lambda>u. False)\<rparr>)
       (locationUrl (sample_env\<lparr>isSignInWithEmailLink := (\<lambda>u. False)\<rparr>)) \<and>
   fst (processEmailLink (sample_env\<lparr>isSignInWithEmailLink := (\<lambda>u. False)\<rparr>)
          (snd (sendMagicLinkRequest sample_env ''foo@bar.com'' (Some ''password'') (constructed Map.empty)))) =
     Inr (EmailLinkResult False (Some InvalidLink) None) \<and>
   prepareEmail sample_env (Some (prepareEmail sample_env (Some []))) = [] \<and>
   fst (processEmailLink sample_env
          (snd (sendMagicLinkRequest sample_env [] (Some ''password'') (constructed Map.empty)))) =
     Inr (EmailLinkResult False (Some NoEmail) None) \<and>
   Storage (snd (processEmailLink sample_env
          (snd (sendMagicLinkRequest sample_env [] (Some ''password'') (constructed Map.empty))))) =
     Storage (snd (sendMagicLinkRequest sample_env [] (Some ''password'') (constructed Map.empty)))"
proof -
  let ?sent = "snd (sendMagicLinkRequest sample_env ''foo@bar.com'' (Some ''password'') (constructed Map.empty))"
  let ?nolink = "sample_env\<lparr>isSignInWithEmailLink := (\<lambda>u. False)\<rparr>"
  have h1: "\<forall>h k. rejects sample_env h k = None"
    and h1': "\<forall>h k. rejects ?nolink h k = None"
    and h2: "isSignInWithEmailLink sample_env (locationUrl sample_env)"
    and h2': "\<not> isSignInWithEmailLink ?nolink (locationUrl ?nolink)"
    and h3: "prepareEmail sample_env (Some (prepareEmail sample_env (Some ''foo@bar.com''))) \<noteq> []"
    by (simp_all add: sample_defs or_empty_def)
  have concrete:
    "prepareEmail sample_env (Some (prepareEmail sample_env (Some ''foo@bar.com''))) = ''foo@bar.com''"
    "locationUrl sample_env = ''https://app.example/finish''"
    "reason_or_empty (Some ''password'') = MagicLinkRequestReasons_PasswordReset sample_env"
    "prepareEmail sample_env (Some (prepareEmail sample_env (Some []))) = []"
    by (simp_all add: sample_defs or_empty_def reason_or_empty_def)
  show ?thesis
    using h1 h2 h2' h3
      magic_link_round_trip[OF h1 h1 refl, of "''foo@bar.com''" "Some ''password''" "constructed Map.empty"]
      magic_link_round_trip[OF h1 h1' refl, of "''foo@bar.com''" "Some ''password''" "constructed Map.empty"]
      magic_link_round_trip[OF h1 h1 refl, of "[]" "Some ''password''" "constructed Map.empty"]
    by (simp add: concrete)
qed


subsection \<open>The initialization gate\<close>

lemma gate_held_await:
  "n \<noteq> 0 \<Longrightarrow> preserves (gate_held n k) (await E call)"
  by (rule preserves_await) (auto simp: gate_held_def initializing_def)

lemma gate_held_logger: "preserves (gate_held n k) (logger lvl msg)"
  by (rule preserves_logger) (simp add: gate_held_def)

lemma gate_held_Storage:
  assumes "n \<noteq> 0"
  shows "preserves (gate_held n k) (Storage_getValue E key)"
    and "preserves (gate_held n k) (Storage_setValue E key v)"
    and "preserves (gate_held n k) (Storage_remove E key)"
  unfolding Storage_getValue_def Storage_setValue_def Storage_remove_def
  by (intro preserves_intros gate_held_await[OF assms] preserves_modify; simp add: gate_held_def)+

lemma gate_held_getEmailAuthMethod:
  "n \<noteq> 0 \<Longrightarrow> preserves (gate_held n k) (getEmailAuthMethod E em)"
  unfolding getEmailAuthMethod_def Let_def
  by (intro preserves_intros gate_held_await gate_held_logger) simp

lemma gate_held_processAuthUser:
  assumes "n \<noteq> 0"
  shows "preserves (gate_held n k) (processAuthUser E)"
  unfolding processAuthUser_def commit_snapshot_def user_methods_def resolve_provider_def
    check_password_mode_def Let_def
  by (intro preserves_intros gate_held_await[OF assms] gate_held_logger gate_held_Storage[OF assms]
        gate_held_getEmailAuthMethod[OF assms] preserves_modify; simp add: gate_held_def)

lemma gate_held_signOut_callback:
  assumes "n \<noteq> 0"
  shows "preserves (gate_held n k) (signOut_callback E)"
  unfolding signOut_callback_def servicesSignOut_def
  by (intro preserves_intros gate_held_await[OF assms] gate_held_logger gate_held_Storage[OF assms]
        preserves_modify; simp add: gate_held_def)

lemma doInitialization_snd:
  "snd (doInitialization cb c) =
     (snd (cb (c\<lparr>initializing_value := initializing_value c + 1\<rparr>)))
       \<lparr>initializing_value :=
          initializing_value (snd (cb (c\<lparr>initializing_value := initializing_value c + 1\<rparr>))) - 1\<rparr>"
  by (simp add: doInitialization_def io_defs split: prod.splits sum.splits)

lemma doInitialization_fst:
  "fst (doInitialization cb c) = fst (cb (c\<lparr>initializing_value := initializing_value c + 1\<rparr>))"
  by (simp add: doInitialization_def io_defs split: prod.splits sum.splits)

lemma doInitialization_gate:
  assumes cb: "preserves (gate_held (initializing_value c + 1) (initializing_seen c)) cb"
  shows "initializing_value (snd (doInitialization cb c)) = initializing_value c"
    and "\<exists>new. initializing_seen (snd (doInitialization cb c)) = initializing_seen c @ new \<and>
               list_all (\<lambda>b. b) new"
proof -
  let ?c1 = "c\<lparr>initializing_value := initializing_value c + 1\<rparr>"
  have "gate_held (initializing_value c + 1) (initializing_seen c) ?c1"
    by (simp add: gate_held_def)
  with cb have g: "gate_held (initializing_value c + 1) (initializing_seen c) (snd (cb ?c1))"
    by (simp add: preserves_def)
  show "initializing_value (snd (doInitialization cb c)) = initializing_value c"
    using g by (simp add: doInitialization_snd gate_held_def)
  show "\<exists>new. initializing_seen (snd (doInitialization cb c)) = initializing_seen c @ new \<and>
               list_all (\<lambda>b. b) new"
    using g by (simp add: doInitialization_snd gate_held_def)
qed

lemma not_awaited_snd:
  "snd (not_awaited m c) =
     (case fst (m c) of
        Inl e \<Rightarrow> (snd (m c))\<lparr>unhandled := unhandled (snd (m c)) @ [e]\<rparr>
      | Inr x \<Rightarrow> snd (m c))"
  by (simp add: not_awaited_def split: prod.splits sum.splits)

lemma firstInit_processAuthUser: "\<not> firstInit (snd (processAuthUser E c))"
proof -
  have "preserves (\<lambda>c. \<not> firstInit c) (processAuthUser E)"
    unfolding processAuthUser_def commit_snapshot_def user_methods_def resolve_provider_def
      check_password_mode_def getEmailAuthMethod_def Storage_getValue_def Storage_setValue_def Let_def
    by (intro preserves_intros preserves_await preserves_logger preserves_modify; simp)
  moreover have "snd (processAuthUser E c) = snd (processAuthUser E (c\<lparr>firstInit := False\<rparr>))"
    by (simp add: processAuthUser_def commit_snapshot_def io_bind_def io_modify_def)
  ultimately show ?thesis by (simp add: preserves_def)
qed

lemma firstInit_signOut_callback: "firstInit (snd (signOut_callback E c)) = firstInit c"
proof -
  have "preserves (\<lambda>c'. firstInit c' = firstInit c) (signOut_callback E)"
    unfolding signOut_callback_def servicesSignOut_def Storage_remove_def
    by (intro preserves_intros preserves_await preserves_logger preserves_modify; simp)
  then show ?thesis by (simp add: preserves_def)
qed

text \<open>
  C7: \<open>initializing\<close> is \<open>true\<close> for a constructed controller; the handler of the first
  notification sees it \<open>true\<close> at each of its calls and leaves it \<open>false\<close>, whether the
  reconciliation resolves or rejects; from any state with a non-negative counter, a later
  notification or a sign-out sees \<open>initializing\<close> \<open>true\<close> at each of its calls and leaves
  the counter as it found it; and \<open>doInitialization\<close> passes the outcome of its callback
  through and ends one below the counter that the callback, entered one above, left.
\<close>

theorem initializing_gate:
  "initializing (constructed st) \<and>
   \<not> initializing (snd (onAuthStateChanged E (constructed st))) \<and>
   list_all (\<lambda>b. b) (initializing_seen (snd (onAuthStateChanged E (constructed st)))) \<and>
   (0 \<le> initializing_value c \<longrightarrow>
      initializing_value (snd (onAuthStateChanged E c)) = initializing_value c \<and>
      \<not> firstInit (snd (onAuthStateChanged E c)) \<and>
      (\<exists>new. initializing_seen (snd (onAuthStateChanged E c)) = initializing_seen c @ new \<and>
             list_all (\<lambda>b. b) new) \<and>
      initializing_value (snd (signOut E c)) = initializing_value c \<and>
      firstInit (snd (signOut E c)) = firstInit c \<and>
      (\<exists>new. initializing_seen (snd (signOut E c)) = initializing_seen c @ new \<and>
             list_all (\<lambda>b. b) new)) \<and>
   fst (doInitialization cb c) = fst (cb (c\<lparr>initializing_value := initializing_value c + 1\<rparr>)) \<and>
   initializing_value (snd (doInitialization cb c)) =
     initializing_value (snd (cb (c\<lparr>initializing_value := initializing_value c + 1\<rparr>))) - 1"
proof -
  have notified:
    "initializing_value (snd (onAuthStateChanged E s)) = initializing_value s \<and>
     \<not> firstInit (snd (onAuthStateChanged E s)) \<and>
     (\<exists>new. initializing_seen (snd (onAuthStateChanged E s)) = initializing_seen s @ new \<and>
            list_all (\<lambda>b. b) new)"
    if "0 \<le> initializing_value s" for s
  proof -
    from that have "initializing_value s + 1 \<noteq> 0" by simp
    note g = doInitialization_gate[OF gate_held_processAuthUser[OF this, of "initializing_seen s" E]]
    have f: "\<not> firstInit (snd (doInitialization (processAuthUser E) s))"
      by (simp add: doInitialization_snd firstInit_processAuthUser)
    show ?thesis
      using g f by (simp add: onAuthStateChanged_def not_awaited_snd split: sum.splits)
  qed
  have signedOut:
    "initializing_value (snd (signOut E s)) = initializing_value s \<and>
     firstInit (snd (signOut E s)) = firstInit s \<and>
     (\<exists>new. initializing_seen (snd (signOut E s)) = initializing_seen s @ new \<and>
            list_all (\<lambda>b. b) new)"
    if "0 \<le> initializing_value s" for s
  proof -
    let ?s = "s\<lparr>logged := logged s @ [(Log, ''Signing out...'')]\<rparr>"
    from that have "initializing_value ?s + 1 \<noteq> 0" by simp
    note g = doInitialization_gate[OF gate_held_signOut_callback[OF this, of "initializing_seen ?s" E]]
    have f: "firstInit (snd (doInitialization (signOut_callback E) ?s)) = firstInit s"
      by (simp add: doInitialization_snd firstInit_signOut_callback)
    have "snd (signOut E s) = snd (not_awaited (doInitialization (signOut_callback E)) ?s)"
      by (simp add: signOut_def io_bind_def logger_def io_modify_def)
    then show ?thesis
      using g f by (simp add: not_awaited_snd split: sum.splits)
  qed
  have first: "\<not> initializing (snd (onAuthStateChanged E (constructed st)))"
    "list_all (\<lambda>b. b) (initializing_seen (snd (onAuthStateChanged E (constructed st))))"
    using notified[of "constructed st"] by (auto simp: initializing_def constructed_def)
  show ?thesis
    using first notified[of c] signedOut[of c]
    by (simp add: doInitialization_snd doInitialization_fst initializing_def constructed_def)
qed

theorem initializing_gate_witness:
  "0 \<le> initializing_value (constructed Map.empty) \<and>
   initializing (constructed Map.empty) \<and>
   initializing_seen (snd (onAuthStateChanged sample_env (constructed Map.empty))) = [True, True, True] \<and>
   \<not> initializing (snd (onAuthStateChanged sample_env (constructed Map.empty))) \<and>
   unhandled (snd (onAuthStateChanged
       (rejecting (\<lambda>h k. k = StorageGetValue AuthProviderIdKey) (sample_error ''storage/unavailable''))
       (constructed Map.empty))) = [sample_error ''storage/unavailable''] \<and>
   \<not> initializing (snd (onAuthStateChanged
       (rejecting (\<lambda>h k. k = StorageGetValue AuthProviderIdKey) (sample_error ''storage/unavailable''))
       (constructed Map.empty))) \<and>
   initializing_seen (snd (signOut sample_env (constructed Map.empty))) = [True, True, True, True, True] \<and>
   initializing_value (snd (signOut sample_env (constructed Map.empty))) = 0"
proof -
  let ?bad = "rejecting (\<lambda>h k. k = StorageGetValue AuthProviderIdKey) (sample_error ''storage/unavailable'')"
  have h: "0 \<le> initializing_value (constructed Map.empty)"
    by (simp add: constructed_def)
  have seen: "initializing_seen (snd (onAuthStateChanged sample_env (constructed Map.empty))) = [True, True, True]"
    "initializing_seen (snd (signOut sample_env (constructed Map.empty))) = [True, True, True, True, True]"
    "unhandled (snd (onAuthStateChanged ?bad (constructed Map.empty))) = [sample_error ''storage/unavailable'']"
    by (simp_all add: onAuthStateChanged_def signOut_def signOut_callback_def servicesSignOut_def
          doInitialization_def reconcile_defs sample_defs io_defs key_defs)
  have v: "initializing_value (constructed Map.empty) = 0"
    by (simp add: constructed_def)
  show ?thesis
    using h v seen
      initializing_gate[of Map.empty sample_env "constructed Map.empty" "io_return ()"]
      initializing_gate[of Map.empty ?bad "constructed Map.empty" "io_return ()"]
    by simp
qed


subsection \<open>Google sign-in\<close>

lemmas google_defs =
  signInWithGoogle_def doGoogleSignIn_def setNextProvider_def io_defs Let_def initializing_def

lemma signInWithGoogle_popup_rejected_hint:
  assumes "rejects E (calls c) SignInWithPopup = Some err"
  shows "nextProvider (snd (signInWithGoogle E c)) = Some (AuthProviders_None E)"
  using assms
  by (cases "is_cancellation err";
      cases "err_code err = CodeStr ''auth/account-exists-with-different-credential''";
      cases "currentUser E";
      cases "rejects E (calls c @ [SignInWithPopup]) (LinkWithCredential (err_email err) (locationUrl E))";
      simp add: google_defs)

text \<open>
  C8: a popup that resolves with no result gives \<open>false\<close> and the hint None. When the popup
  rejects with \<open>err\<close> the hint is None; a cancellation gives \<open>false\<close>; any other error whose
  code is not \<open>auth/account-exists-with-different-credential\<close> is rethrown; with that code
  the link of the email credential to the current user is called, and when it rejects, or
  there is no current user to call it on, \<open>err\<close> itself is rethrown and nothing is left
  unhandled.
\<close>

theorem signInWithGoogle_outcomes:
  "(rejects E (calls c) SignInWithPopup = None \<and> popupResult E = None \<longrightarrow>
      fst (signInWithGoogle E c) = Inr False \<and>
      nextProvider (snd (signInWithGoogle E c)) = Some (AuthProviders_None E)) \<and>
   (rejects E (calls c) SignInWithPopup = Some err \<longrightarrow>
      nextProvider (snd (signInWithGoogle E c)) = Some (AuthProviders_None E) \<and>
      (is_cancellation err \<longrightarrow> fst (signInWithGoogle E c) = Inr False) \<and>
      (\<not> is_cancellation err \<and>
       err_code err \<noteq> CodeStr ''auth/account-exists-with-different-credential'' \<longrightarrow>
         fst (signInWithGoogle E c) = Inl err) \<and>
      (\<not> is_cancellation err \<and>
       err_code err = CodeStr ''auth/account-exists-with-different-credential'' \<longrightarrow>
         (currentUser E = None \<longrightarrow>
            fst (signInWithGoogle E c) = Inl err \<and>
            unhandled (snd (signInWithGoogle E c)) = unhandled c) \<and>
         (currentUser E \<noteq> None \<longrightarrow>
            calls (snd (signInWithGoogle E c)) =
              calls c @ [SignInWithPopup, LinkWithCredential (err_email err) (locationUrl E)] \<and>
            (rejects E (calls c @ [SignInWithPopup])
               (LinkWithCredential (err_email err) (locationUrl E)) = Some innerErr \<longrightarrow>
               fst (signInWithGoogle E c) = Inl err \<and>
               unhandled (snd (signInWithGoogle E c)) = unhandled c))))"
proof (intro conjI impI)
  assume "rejects E (calls c) SignInWithPopup = None \<and> popupResult E = None"
  then show "fst (signInWithGoogle E c) = Inr False"
    and "nextProvider (snd (signInWithGoogle E c)) = Some (AuthProviders_None E)"
    by (simp_all add: google_defs)
next
  assume r: "rejects E (calls c) SignInWithPopup = Some err"
  show "nextProvider (snd (signInWithGoogle E c)) = Some (AuthProviders_None E)"
    by (rule signInWithGoogle_popup_rejected_hint[OF r])
  {
    assume "is_cancellation err"
    with r show "fst (signInWithGoogle E c) = Inr False"
      by (simp add: google_defs)
  }
  {
    assume "\<not> is_cancellation err \<and>
       err_code err \<noteq> CodeStr ''auth/account-exists-with-different-credential''"
    with r show "fst (signInWithGoogle E c) = Inl err"
      by (simp add: google_defs)
  }
  {
    assume h: "\<not> is_cancellation err \<and>
       err_code err = CodeStr ''auth/account-exists-with-different-credential''"
    {
      assume "currentUser E = None"
      with r h show "fst (signInWithGoogle E c) = Inl err"
        and "unhandled (snd (signInWithGoogle E c)) = unhandled c"
        by (simp_all add: google_defs)
    }
    {
      assume u: "currentUser E \<noteq> None"
      with r h show "calls (snd (signInWithGoogle E c)) =
              calls c @ [SignInWithPopup, LinkWithCredential (err_email err) (locationUrl E)]"
        by (cases "rejects E (calls c @ [SignInWithPopup])
                     (LinkWithCredential (err_email err) (locationUrl E))")
           (auto simp: google_defs)
      assume "rejects E (calls c @ [SignInWithPopup])
               (LinkWithCredential (err_email err) (locationUrl E)) = Some innerErr"
      with r h u show "fst (signInWithGoogle E c) = Inl err"
        and "unhandled (snd (signInWithGoogle E c)) = unhandled c"
        by (auto simp: google_defs)
    }
  }
qed

theorem signInWithGoogle_outcomes_witness:
  "fst (signInWithGoogle (sample_env\<lparr>popupResult := None\<rparr>) signed_in) = Inr False \<and>
   nextProvider (snd (signInWithGoogle (sample_env\<lparr>popupResult := None\<rparr>) signed_in)) = Some '''' \<and>
   fst (signInWithGoogle (rejecting (\<lambda>h k. k = SignInWithPopup) (JsError (CodeNum (- 3)) None None))
          signed_in) = Inr False \<and>
   nextProvider (snd (signInWithGoogle (rejecting (\<lambda>h k. k = SignInWithPopup) (JsError (CodeNum (- 3)) None None))
          signed_in)) = Some '''' \<and>
   fst (signInWithGoogle (rejecting (\<lambda>h k. k = SignInWithPopup) (sample_error ''auth/popup-blocked''))
          signed_in) = Inl (sample_error ''auth/popup-blocked'') \<and>
   fst (signInWithGoogle
          (rejecting (\<lambda>h k. True) (sample_error ''auth/account-exists-with-different-credential''))
          signed_in) = Inl (sample_error ''auth/account-exists-with-different-credential'') \<and>
   calls (snd (signInWithGoogle
          (rejecting (\<lambda>h k. True) (sample_error ''auth/account-exists-with-different-credential''))
          signed_in)) =
     [SignInWithPopup, LinkWithCredential (Some ''foo@bar.com'') ''https://app.example/finish'']"
proof -
  let ?none = "sample_env\<lparr>popupResult := None\<rparr>"
  let ?cancel = "rejecting (\<lambda>h k. k = SignInWithPopup) (JsError (CodeNum (- 3)) None None)"
  let ?blocked = "rejecting (\<lambda>h k. k = SignInWithPopup) (sample_error ''auth/popup-blocked'')"
  let ?exists = "rejecting (\<lambda>h k. True) (sample_error ''auth/account-exists-with-different-credential'')"
  have facts:
    "rejects ?none (calls signed_in) SignInWithPopup = None" "popupResult ?none = None"
    "AuthProviders_None ?none = ''''" "AuthProviders_None ?cancel = ''''"
    "rejects ?cancel (calls signed_in) SignInWithPopup = Some (JsError (CodeNum (- 3)) None None)"
    "is_cancellation (JsError (CodeNum (- 3)) None None)"
    "rejects ?blocked (calls signed_in) SignInWithPopup = Some (sample_error ''auth/popup-blocked'')"
    "\<not> is_cancellation (sample_error ''auth/popup-blocked'')"
    "err_code (sample_error ''auth/popup-blocked'') \<noteq> CodeStr ''auth/account-exists-with-different-credential''"
    "rejects ?exists (calls signed_in) SignInWithPopup =
       Some (sample_error ''auth/account-exists-with-different-credential'')"
    "\<not> is_cancellation (sample_error ''auth/account-exists-with-different-credential'')"
    "err_code (sample_error ''auth/account-exists-with-different-credential'') =
       CodeStr ''auth/account-exists-with-different-credential''"
    "currentUser ?exists \<noteq> None"
    "rejects ?exists (calls signed_in @ [SignInWithPopup])
       (LinkWithCredential (err_email (sample_error ''auth/account-exists-with-different-credential''))
          (locationUrl ?exists)) = Some (sample_error ''auth/account-exists-with-different-credential'')"
    "err_email (sample_error ''auth/account-exists-with-different-credential'') = Some ''foo@bar.com''"
    "locationUrl ?exists = ''https://app.example/finish''"
    "calls signed_in = []"
    by (simp_all add: sample_defs is_cancellation_def loose_eq_minus3_def)
  show ?thesis
    using facts
      signInWithGoogle_outcomes[of ?none signed_in]
      signInWithGoogle_outcomes[of ?cancel signed_in "JsError (CodeNum (- 3)) None None"]
      signInWithGoogle_outcomes[of ?blocked signed_in "sample_error ''auth/popup-blocked''"]
      signInWithGoogle_outcomes[of ?exists signed_in
        "sample_error ''auth/account-exists-with-different-credential''"
        "sample_error ''auth/account-exists-with-different-credential''"]
    by simp
qed

text \<open>
  C10: the popup rejects with \<open>auth/account-exists-with-different-credential\<close> (and is not
  a cancellation) while a user is signed in. If the link resolves, \<open>signInWithGoogle\<close>
  returns \<open>false\<close>: the error is not rethrown. If the link rejects, the original error is
  rethrown, and the inner error is neither logged nor left unhandled.
\<close>

theorem signInWithGoogle_account_exists:
  "rejects E (calls c) SignInWithPopup = Some err \<and> \<not> is_cancellation err \<and>
   err_code err = CodeStr ''auth/account-exists-with-different-credential'' \<and>
   currentUser E \<noteq> None \<longrightarrow>
     (rejects E (calls c @ [SignInWithPopup]) (LinkWithCredential (err_email err) (locationUrl E)) = None \<longrightarrow>
        fst (signInWithGoogle E c) = Inr False) \<and>
     (rejects E (calls c @ [SignInWithPopup]) (LinkWithCredential (err_email err) (locationUrl E))
        = Some innerErr \<longrightarrow>
        fst (signInWithGoogle E c) = Inl err \<and>
        logged (snd (signInWithGoogle E c)) =
          logged c @ [(Log, ''next provider =>''), (Log, ''next provider =>''),
                      (Warn, ''Google Sign in error:'')] \<and>
        unhandled (snd (signInWithGoogle E c)) = unhandled c)"
  by (auto simp: google_defs)

theorem signInWithGoogle_account_exists_witness:
  "fst (signInWithGoogle
          (rejecting (\<lambda>h k. k = SignInWithPopup) (sample_error ''auth/account-exists-with-different-credential''))
          signed_in) = Inr False \<and>
   fst (signInWithGoogle
          (sample_env\<lparr>rejects := (\<lambda>h k. if k = SignInWithPopup
                                   then Some (sample_error ''auth/account-exists-with-different-credential'')
                                   else Some (sample_error ''auth/provider-already-linked''))\<rparr>)
          signed_in) = Inl (sample_error ''auth/account-exists-with-different-credential'') \<and>
   logged (snd (signInWithGoogle
          (sample_env\<lparr>rejects := (\<lambda>h k. if k = SignInWithPopup
                                   then Some (sample_error ''auth/account-exists-with-different-credential'')
                                   else Some (sample_error ''auth/provider-already-linked''))\<rparr>)
          signed_in)) =
     [(Log, ''next provider =>''), (Log, ''next provider =>''), (Warn, ''Google Sign in error:'')]"
proof -
  let ?linked = "rejecting (\<lambda>h k. k = SignInWithPopup)
                   (sample_error ''auth/account-exists-with-different-credential'')"
  let ?refused = "sample_env\<lparr>rejects := (\<lambda>h k. if k = SignInWithPopup
                                   then Some (sample_error ''auth/account-exists-with-different-credential'')
                                   else Some (sample_error ''auth/provider-already-linked''))\<rparr>"
  have facts:
    "rejects ?linked (calls signed_in) SignInWithPopup =
       Some (sample_error ''auth/account-exists-with-different-credential'')"
    "rejects ?refused (calls signed_in) SignInWithPopup =
       Some (sample_error ''auth/account-exists-with-different-credential'')"
    "\<not> is_cancellation (sample_error ''auth/account-exists-with-different-credential'')"
    "err_code (sample_error ''auth/account-exists-with-different-credential'') =
       CodeStr ''auth/account-exists-with-different-credential''"
    "currentUser ?linked \<noteq> None" "currentUser ?refused \<noteq> None"
    "rejects ?linked (calls signed_in @ [SignInWithPopup])
       (LinkWithCredential (err_email (sample_error ''auth/account-exists-with-different-credential''))
          (locationUrl ?linked)) = None"
    "rejects ?refused (calls signed_in @ [SignInWithPopup])
       (LinkWithCredential (err_email (sample_error ''auth/account-exists-with-different-credential''))
          (locationUrl ?refused)) = Some (sample_error ''auth/provider-already-linked'')"
    "logged signed_in = []"
    by (simp_all add: sample_defs is_cancellation_def loose_eq_minus3_def)
  show ?thesis
    using facts
      signInWithGoogle_account_exists[of ?linked signed_in
        "sample_error ''auth/account-exists-with-different-credential''"]
      signInWithGoogle_account_exists[of ?refused signed_in
        "sample_error ''auth/account-exists-with-different-credential''"
        "sample_error ''auth/provider-already-linked''"]
    by simp
qed


subsection \<open>The transient provider hint\<close>




end
